theory Spec2Isabelle
  imports Main
begin

section \<open>The release detector \<^verbatim>\<open>detect_release.py\<close>\<close>

text \<open>
  The script decides, for every crate of the table \<^verbatim>\<open>BINARY_CRATES\<close>, whether the version
  in its manifest calls for a release, and appends the decision to the file named by
  \<^verbatim>\<open>GITHUB_OUTPUT\<close>. The embedding follows the script function by function.

  Modelling boundary.
  \<^item> A Python \<^verbatim>\<open>str\<close> is a \<open>string\<close>: a list of characters with code points below 256.
  \<^item> Every \<^verbatim>\<open>raise\<close> is a value \<open>Inl e\<close> of the result type \<open>exn + 'a\<close>.
  \<^item> The file system, the environment variables, the TOML parser of the standard library
    and the git program are outside the script; they are the fields of a record \<open>world\<close>.
    The record also keeps the list of the commands the script has started.
  \<^item> The console lines of \<^verbatim>\<open>print\<close> are not part of the model.
  \<^item> The interpreter runs with its default settings (Python 3.11 or later, which the import
    of \<^verbatim>\<open>tomllib\<close> requires).
\<close>

subsection \<open>Exceptions\<close>

datatype exn =
    FileNotFoundError
  | KeyError
  | TypeError
  | ValueError
  | TOMLDecodeError
  | AttributeError
  | CalledProcessError

text \<open>\<^verbatim>\<open>tomllib.TOMLDecodeError\<close> is a subclass of \<^verbatim>\<open>ValueError\<close>; the other classes used here
  are unrelated to each other.\<close>

definition isinstance :: "exn \<Rightarrow> exn \<Rightarrow> bool" where
  "isinstance e cls = (e = cls \<or> (e = TOMLDecodeError \<and> cls = ValueError))"

text \<open>\<^verbatim>\<open>try: return body  except (classes): return d\<close>\<close>

definition try_except :: "exn list \<Rightarrow> 'a \<Rightarrow> exn + 'a \<Rightarrow> exn + 'a" where
  "try_except classes d body =
     (case body of
        Inl e \<Rightarrow> if list_ex (isinstance e) classes then Inr d else Inl e
      | Inr v \<Rightarrow> Inr v)"

subsection \<open>String methods\<close>

text \<open>\<^verbatim>\<open>v.split(sep)\<close> for a separator of one character: the result is never empty.\<close>

fun str_split :: "char \<Rightarrow> string \<Rightarrow> string list" where
  "str_split sep [] = [[]]"
| "str_split sep (c # cs) =
     (if c = sep then [] # str_split sep cs
      else (case str_split sep cs of
              [] \<Rightarrow> [[c]]
            | p # ps \<Rightarrow> (c # p) # ps))"

text \<open>Below code point 256, \<^verbatim>\<open>str.isdigit\<close> accepts the ten decimal digits and the
  superscripts two, three and one (0xB2, 0xB3, 0xB9); the empty string is not a digit
  string.\<close>

definition decimal_char :: "char \<Rightarrow> bool" where
  "decimal_char c = (48 \<le> (of_char c :: nat) \<and> (of_char c :: nat) \<le> 57)"

definition isdigit_char :: "char \<Rightarrow> bool" where
  "isdigit_char c =
     (decimal_char c \<or> (of_char c :: nat) = 178 \<or> (of_char c :: nat) = 179
        \<or> (of_char c :: nat) = 185)"

definition isdigit :: "string \<Rightarrow> bool" where
  "isdigit s = (s \<noteq> [] \<and> list_all isdigit_char s)"

text \<open>Below code point 256, \<^verbatim>\<open>str.isspace\<close> holds for 0x09-0x0D, 0x1C-0x20, 0x85 and 0xA0;
  \<^verbatim>\<open>s.strip()\<close> removes such characters at both ends.\<close>

definition isspace_char :: "char \<Rightarrow> bool" where
  "isspace_char c =
     (let n = (of_char c :: nat)
      in (9 \<le> n \<and> n \<le> 13) \<or> (28 \<le> n \<and> n \<le> 32) \<or> n = 133 \<or> n = 160)"

definition strip :: "string \<Rightarrow> string" where
  "strip s = rev (dropWhile isspace_char (rev (dropWhile isspace_char s)))"

text \<open>\<^verbatim>\<open>int(p)\<close> on a string that passed \<^verbatim>\<open>isdigit\<close>: the value of the decimal digits, or
  \<^verbatim>\<open>ValueError\<close> when a superscript is among them, or when the string has more digits than
  the interpreter converts (\<^verbatim>\<open>sys.int_max_str_digits\<close>, 4300 by default; leading zeros
  count). The script calls \<^verbatim>\<open>int\<close> on no other string.\<close>

definition int_max_str_digits :: nat where
  "int_max_str_digits = 4300"

definition decimal :: "string \<Rightarrow> bool" where
  "decimal p = (p \<noteq> [] \<and> list_all decimal_char p)"

definition digit_value :: "char \<Rightarrow> int" where
  "digit_value c = int (of_char c) - 48"

definition decimal_value :: "string \<Rightarrow> int" where
  "decimal_value p = foldl (\<lambda>acc c. 10 * acc + digit_value c) 0 p"

definition py_int :: "string \<Rightarrow> exn + int" where
  "py_int p =
     (if decimal p \<and> length p \<le> int_max_str_digits then Inr (decimal_value p)
      else Inl ValueError)"

subsection \<open>\<^verbatim>\<open>compare_versions\<close>\<close>

text \<open>\<^verbatim>\<open>tuple(int(p) for p in parts if p.isdigit())\<close>: the first \<^verbatim>\<open>int\<close> that raises ends the
  construction.\<close>

fun int_parts :: "string list \<Rightarrow> exn + int list" where
  "int_parts [] = Inr []"
| "int_parts (p # ps) =
     (if isdigit p
      then (case py_int p of
              Inl e \<Rightarrow> Inl e
            | Inr n \<Rightarrow> (case int_parts ps of Inl e \<Rightarrow> Inl e | Inr ns \<Rightarrow> Inr (n # ns)))
      else int_parts ps)"

definition version_tuple :: "string \<Rightarrow> exn + int list" where
  "version_tuple v = int_parts (str_split CHR ''.'' v)"

text \<open>\<^verbatim>\<open>a > b\<close> on tuples of integers: the first position where they differ decides; when
  there is none, the longer tuple is the greater.\<close>

fun tuple_gt :: "int list \<Rightarrow> int list \<Rightarrow> bool" where
  "tuple_gt [] bs = False"
| "tuple_gt (a # as) [] = True"
| "tuple_gt (a # as) (b # bs) = (if a = b then tuple_gt as bs else a > b)"

definition compare_versions :: "string option \<Rightarrow> string option \<Rightarrow> exn + bool" where
  "compare_versions prev cur =
     (case prev of
        None \<Rightarrow> Inr False
      | Some p \<Rightarrow>
          (case cur of
             None \<Rightarrow> Inr False
           | Some c \<Rightarrow>
               try_except [ValueError, AttributeError] (p \<noteq> c)
                 (case version_tuple p of
                    Inl e \<Rightarrow> Inl e
                  | Inr prev_tuple \<Rightarrow>
                      (case version_tuple c of
                         Inl e \<Rightarrow> Inl e
                       | Inr cur_tuple \<Rightarrow> Inr (tuple_gt cur_tuple prev_tuple)))))"

subsection \<open>The world outside the script\<close>

text \<open>What \<^verbatim>\<open>tomllib.loads\<close> returns: a dictionary from the top-level keys to their values. A
  value is a table or something else (a string, a number, an array, ...). \<^verbatim>\<open>get_version\<close>
  is declared to return \<^verbatim>\<open>str | None\<close>, so the values inside a table are strings here.\<close>

datatype item = Table "string \<rightharpoonup> string" | Other

type_synonym document = "string \<rightharpoonup> item"

text \<open>\<^verbatim>\<open>subprocess.CompletedProcess\<close>, with the fields the script reads.\<close>

record completed =
  returncode :: int
  stdout :: string

text \<open>\<open>spawn w argv\<close> is what starting the program \<open>argv\<close> does: the start itself raises (the
  program is not installed), or the program runs and ends with a return code and an
  output.\<close>

record world =
  environ :: "string \<rightharpoonup> string"
  files :: "string \<rightharpoonup> string"
  tomllib_loads :: "string \<Rightarrow> exn + document"
  spawn :: "string list \<Rightarrow> exn + completed"
  calls :: "string list list"

text \<open>\<^verbatim>\<open>os.environ.get(key, default)\<close>, \<^verbatim>\<open>Path(path).read_text()\<close>, \<^verbatim>\<open>d[key]\<close>\<close>

definition environ_get :: "world \<Rightarrow> string \<Rightarrow> string \<Rightarrow> string" where
  "environ_get w key dflt = (case environ w key of None \<Rightarrow> dflt | Some v \<Rightarrow> v)"

definition read_text :: "world \<Rightarrow> string \<Rightarrow> exn + string" where
  "read_text w path = (case files w path of None \<Rightarrow> Inl FileNotFoundError | Some t \<Rightarrow> Inr t)"

definition getitem :: "(string \<rightharpoonup> 'v) \<Rightarrow> string \<Rightarrow> exn + 'v" where
  "getitem d key = (case d key of None \<Rightarrow> Inl KeyError | Some v \<Rightarrow> Inr v)"

text \<open>\<^verbatim>\<open>subprocess.run(argv, capture_output=True, text=True, check=True)\<close>: the command is
  started (and logged); with \<^verbatim>\<open>check=True\<close> a return code other than 0 raises
  \<^verbatim>\<open>CalledProcessError\<close>.\<close>

definition subprocess_run :: "world \<Rightarrow> string list \<Rightarrow> (exn + completed) \<times> world" where
  "subprocess_run w argv =
     ((case spawn w argv of
         Inl e \<Rightarrow> Inl e
       | Inr r \<Rightarrow> if returncode r \<noteq> 0 then Inl CalledProcessError else Inr r),
      w\<lparr>calls := calls w @ [argv]\<rparr>)"

text \<open>Truth value of a \<^verbatim>\<open>str | None\<close> in a condition: \<^verbatim>\<open>None\<close> and the empty string are
  false.\<close>

definition truthy :: "string option \<Rightarrow> bool" where
  "truthy v = (case v of None \<Rightarrow> False | Some s \<Rightarrow> s \<noteq> [])"

subsection \<open>\<^verbatim>\<open>get_version\<close>\<close>

definition get_version :: "world \<Rightarrow> string \<Rightarrow> string option \<Rightarrow> exn + string option" where
  "get_version w cargo_toml_path content =
     try_except [FileNotFoundError, KeyError] None
       (case (case content of None \<Rightarrow> read_text w cargo_toml_path | Some c \<Rightarrow> Inr c) of
          Inl e \<Rightarrow> Inl e
        | Inr text \<Rightarrow>
            (case tomllib_loads w text of
               Inl e \<Rightarrow> Inl e
             | Inr data \<Rightarrow>
                 (case getitem data ''package'' of
                    Inl e \<Rightarrow> Inl e
                  | Inr Other \<Rightarrow> Inl TypeError
                  | Inr (Table package) \<Rightarrow>
                      (case getitem package ''version'' of
                         Inl e \<Rightarrow> Inl e
                       | Inr version \<Rightarrow> Inr (Some version)))))"

subsection \<open>\<^verbatim>\<open>get_previous_content\<close>\<close>

definition null_sha :: string where
  "null_sha = replicate 40 CHR ''0''"

definition get_previous_content ::
  "world \<Rightarrow> string \<Rightarrow> string \<Rightarrow> (exn + string option) \<times> world" where
  "get_previous_content w before_sha path =
     (if before_sha = null_sha then (Inr None, w)
      else
        (case subprocess_run w [''git'', ''show'', before_sha @ '':'' @ path] of
           (result, w') \<Rightarrow>
             (try_except [CalledProcessError] None
                (case result of Inl e \<Rightarrow> Inl e | Inr r \<Rightarrow> Inr (Some (stdout r))),
              w')))"

subsection \<open>\<^verbatim>\<open>main\<close>\<close>

definition BINARY_CRATES :: "(string \<times> string) list" where
  "BINARY_CRATES = [(''crates/chatty_client_gui/Cargo.toml'', ''chatty'')]"

text \<open>Lines 55-70: the commit to compare with.\<close>

definition resolve_before_sha :: "world \<Rightarrow> (exn + string) \<times> world" where
  "resolve_before_sha w =
     (let before_sha = environ_get w ''BEFORE_SHA'' []
      in if before_sha \<noteq> [] then (Inr before_sha, w)
         else
           (case subprocess_run w [''git'', ''rev-parse'', ''HEAD^''] of
              (result, w') \<Rightarrow>
                (try_except [CalledProcessError] null_sha
                   (case result of
                      Inl e \<Rightarrow> Inl e
                    | Inr r \<Rightarrow>
                        (let s = strip (stdout r) in Inr (if s \<noteq> [] then s else null_sha))),
                 w')))"

text \<open>Lines 72-75: the four local variables that carry the decision.\<close>

record decisions =
  server_release_needed :: bool
  client_release_needed :: bool
  server_version :: "string option"
  client_version :: "string option"

definition initial :: decisions where
  "initial = \<lparr>server_release_needed = False, client_release_needed = False,
              server_version = None, client_version = None\<rparr>"

text \<open>Lines 78-80: the pair \<open>(previous_version, current_version)\<close> of a crate.\<close>

definition crate_versions ::
  "world \<Rightarrow> string \<Rightarrow> string \<Rightarrow> (exn + (string option \<times> string option)) \<times> world" where
  "crate_versions w before_sha crate_path =
     (case get_version w crate_path None of
        Inl e \<Rightarrow> (Inl e, w)
      | Inr current_version \<Rightarrow>
          (case get_previous_content w before_sha crate_path of
             (Inl e, w') \<Rightarrow> (Inl e, w')
           | (Inr prev_content, w') \<Rightarrow>
               (if truthy prev_content
                then (case get_version w' crate_path prev_content of
                        Inl e \<Rightarrow> (Inl e, w')
                      | Inr previous_version \<Rightarrow> (Inr (previous_version, current_version), w'))
                else (Inr (None, current_version), w'))))"

text \<open>Lines 84-105: what the two versions change in the local variables.\<close>

definition record_decision ::
  "string \<Rightarrow> string option \<Rightarrow> string option \<Rightarrow> decisions \<Rightarrow> exn + decisions" where
  "record_decision release_name previous_version current_version d =
     (if truthy current_version then
        (let is_first_release = (previous_version = None)
         in case (if truthy previous_version
                  then compare_versions previous_version current_version
                  else Inr False) of
              Inl e \<Rightarrow> Inl e
            | Inr version_bumped \<Rightarrow>
                (if release_name = ''chatty'' then
                   Inr (d\<lparr>client_version := current_version,
                          client_release_needed :=
                            (if is_first_release \<or> version_bumped then True
                             else client_release_needed d)\<rparr>)
                 else if release_name = ''chatty-server'' then
                   Inr (d\<lparr>server_version := current_version,
                          server_release_needed :=
                            (if is_first_release \<or> version_bumped then True
                             else server_release_needed d)\<rparr>)
                 else Inr d))
      else Inr d)"

definition process_crate ::
  "world \<Rightarrow> string \<Rightarrow> string \<times> string \<Rightarrow> decisions \<Rightarrow> (exn + decisions) \<times> world" where
  "process_crate w before_sha crate d =
     (case crate_versions w before_sha (fst crate) of
        (Inl e, w') \<Rightarrow> (Inl e, w')
      | (Inr (previous_version, current_version), w') \<Rightarrow>
          (record_decision (snd crate) previous_version current_version d, w'))"

text \<open>Line 77: the loop over the items of the table, in their order.\<close>

fun run_crates ::
  "world \<Rightarrow> string \<Rightarrow> (string \<times> string) list \<Rightarrow> decisions \<Rightarrow> (exn + decisions) \<times> world" where
  "run_crates w before_sha [] d = (Inr d, w)"
| "run_crates w before_sha (crate # crates) d =
     (case process_crate w before_sha crate d of
        (Inl e, w') \<Rightarrow> (Inl e, w')
      | (Inr d', w') \<Rightarrow> run_crates w' before_sha crates d')"

text \<open>Lines 110-117: the strings given to \<^verbatim>\<open>f.write\<close>, and the file after them. Opening
  with mode \<^verbatim>\<open>"a"\<close> keeps what the file holds and creates a file that does not exist.\<close>

definition flag_line :: "string \<Rightarrow> bool \<Rightarrow> string" where
  "flag_line role needed =
     role @ ''_release_needed='' @ (if needed then ''true'' else ''false'') @ ''\<newline>''"

definition version_line :: "string \<Rightarrow> string \<Rightarrow> string" where
  "version_line role version = role @ ''_version='' @ version @ ''\<newline>''"

definition output_lines :: "decisions \<Rightarrow> string list" where
  "output_lines d =
     [flag_line ''server'' (server_release_needed d),
      flag_line ''client'' (client_release_needed d)]
     @ (case server_version d of
          None \<Rightarrow> []
        | Some v \<Rightarrow> if v \<noteq> [] then [version_line ''server'' v] else [])
     @ (case client_version d of
          None \<Rightarrow> []
        | Some v \<Rightarrow> if v \<noteq> [] then [version_line ''client'' v] else [])"

definition append_to :: "world \<Rightarrow> string \<Rightarrow> string list \<Rightarrow> world" where
  "append_to w path writes =
     w\<lparr>files := (files w)
          (path \<mapsto> (case files w path of None \<Rightarrow> [] | Some old \<Rightarrow> old) @ concat writes)\<rparr>"

definition write_outputs :: "world \<Rightarrow> decisions \<Rightarrow> world" where
  "write_outputs w d =
     (let output_file = environ_get w ''GITHUB_OUTPUT'' []
      in if output_file \<noteq> [] then append_to w output_file (output_lines d) else w)"

text \<open>\<^verbatim>\<open>main\<close>; the value returned next to the world is the state of the local variables
  at the end.\<close>

definition main :: "world \<Rightarrow> (exn + decisions) \<times> world" where
  "main w =
     (case resolve_before_sha w of
        (Inl e, w1) \<Rightarrow> (Inl e, w1)
      | (Inr before_sha, w1) \<Rightarrow>
          (case run_crates w1 before_sha BINARY_CRATES initial of
             (Inl e, w2) \<Rightarrow> (Inl e, w2)
           | (Inr d, w2) \<Rightarrow> (Inr d, write_outputs w2 d)))"

subsection \<open>The specification's comparator and Transition\<close>

text \<open>The definitions of this subsection follow the words of the specification, not the
  script.

  Section 4.3: split each version string on the dot; keep only the components that are
  purely numeric; convert them to integers; non-numeric or empty components are dropped.\<close>

definition spec_parse :: "string \<Rightarrow> int list" where
  "spec_parse v = map decimal_value (filter decimal (str_split CHR ''.'' v))"

text \<open>Section 4.3: compare the two integer sequences lexicographically, position by
  position; a sequence that is a strict prefix of the other is less than the longer
  one.\<close>

fun spec_less :: "int list \<Rightarrow> int list \<Rightarrow> bool" where
  "spec_less [] [] = False"
| "spec_less [] (b # bs) = True"
| "spec_less (a # as) [] = False"
| "spec_less (a # as) (b # bs) = (a < b \<or> (a = b \<and> spec_less as bs))"

text \<open>Section 4.3: if all components are dropped, ordering falls back to a string
  inequality comparison (\<^verbatim>\<open>current != previous\<close> is a bump); otherwise the result is a bump
  if current is greater than previous under the rule above. "All components dropped" is
  read as in scenario 5 of section 8: neither string has a numeric component.\<close>

definition spec_bump :: "string \<Rightarrow> string \<Rightarrow> bool" where
  "spec_bump previous current =
     (if spec_parse previous = [] \<and> spec_parse current = [] then current \<noteq> previous
      else spec_less (spec_parse previous) (spec_parse current))"

text \<open>Section 3: \<open>FirstRelease\<close> (previous absent, current present), \<open>Bump\<close> (both present,
  current greater than previous), \<open>NoChange\<close> (both present, current not greater),
  \<open>Indeterminate\<close> (current absent). A version is absent or a string.\<close>

datatype transition = FirstRelease | Bump | NoChange | Indeterminate

definition spec_transition :: "string option \<Rightarrow> string option \<Rightarrow> transition" where
  "spec_transition previous current =
     (case current of
        None \<Rightarrow> Indeterminate
      | Some c \<Rightarrow>
          (case previous of
             None \<Rightarrow> FirstRelease
           | Some p \<Rightarrow> if spec_bump p c then Bump else NoChange))"



subsection \<open>Worlds for the examples\<close>

text \<open>The text of a manifest that declares the version \<open>v\<close>, and the document
  \<^verbatim>\<open>tomllib.loads\<close> makes of it.\<close>

definition manifest :: "string \<Rightarrow> string" where
  "manifest v = ''[package]\<newline>version = '' @ [CHR 0x22] @ v @ [CHR 0x22] @ ''\<newline>''"

definition package_doc :: "string \<Rightarrow> document" where
  "package_doc v = [''package'' \<mapsto> Table [''version'' \<mapsto> v]]"

text \<open>What \<^verbatim>\<open>tomllib.loads\<close> does on the texts the examples use: five manifests with a
  version, the empty text, a manifest whose package table has no version, one whose
  \<^verbatim>\<open>package\<close> is a number, and an unfinished table header. The examples apply the parser to
  no other text.\<close>

definition known_documents :: "(string \<times> (exn + document)) list" where
  "known_documents =
     [(manifest ''1.0.0'', Inr (package_doc ''1.0.0'')),
      (manifest ''1.1.9'', Inr (package_doc ''1.1.9'')),
      (manifest ''1.2.0'', Inr (package_doc ''1.2.0'')),
      (manifest ''2.0.0'', Inr (package_doc ''2.0.0'')),
      (manifest [], Inr (package_doc [])),
      ([], Inr Map.empty),
      (''[package]\<newline>name = '' @ [CHR 0x22] @ ''chatty'' @ [CHR 0x22] @ ''\<newline>'',
         Inr [''package'' \<mapsto> Table [''name'' \<mapsto> ''chatty'']]),
      (''package = 1\<newline>'', Inr [''package'' \<mapsto> Other]),
      (''[package'', Inl TOMLDecodeError)]"

definition loads_known :: "string \<Rightarrow> exn + document" where
  "loads_known text =
     (case map_of known_documents text of None \<Rightarrow> Inl TOMLDecodeError | Some r \<Rightarrow> r)"

text \<open>A git repository: \<open>objects\<close> maps \<^verbatim>\<open>sha:path\<close> to the content \<^verbatim>\<open>git show\<close> prints,
  \<open>parent\<close> is the commit \<^verbatim>\<open>git rev-parse HEAD^\<close> prints, if there is one. A failed command
  ends with code 128.\<close>

definition git_repo ::
  "(string \<rightharpoonup> string) \<Rightarrow> string option \<Rightarrow> string list \<Rightarrow> exn + completed" where
  "git_repo objects parent argv =
     (case argv of
        [program, command, arg] \<Rightarrow>
          (if program = ''git'' \<and> command = ''show'' then
             (case objects arg of
                None \<Rightarrow> Inr \<lparr>returncode = 128, stdout = []\<rparr>
              | Some text \<Rightarrow> Inr \<lparr>returncode = 0, stdout = text\<rparr>)
           else if program = ''git'' \<and> command = ''rev-parse'' \<and> arg = ''HEAD^'' then
             (case parent of
                None \<Rightarrow> Inr \<lparr>returncode = 128, stdout = ''HEAD^\<newline>''\<rparr>
              | Some sha \<Rightarrow> Inr \<lparr>returncode = 0, stdout = sha @ ''\<newline>''\<rparr>)
           else Inr \<lparr>returncode = 1, stdout = []\<rparr>)
      | _ \<Rightarrow> Inr \<lparr>returncode = 1, stdout = []\<rparr>)"

text \<open>A machine without git: starting the program raises.\<close>

definition git_missing :: "string list \<Rightarrow> exn + completed" where
  "git_missing argv = Inl FileNotFoundError"

definition crate_path :: string where
  "crate_path = ''crates/chatty_client_gui/Cargo.toml''"

definition base_sha :: string where
  "base_sha = replicate 40 CHR ''a''"

text \<open>A run of the workflow: \<^verbatim>\<open>BEFORE_SHA\<close> as given, \<^verbatim>\<open>GITHUB_OUTPUT\<close> naming a file that
  already holds a line, the manifest of the working tree (if any) and the manifest at the
  base commit (if any).\<close>

definition example_world ::
  "string option \<Rightarrow> string option \<Rightarrow> string option \<Rightarrow> world" where
  "example_world before_env previous_text current_text =
     \<lparr>environ = (\<lambda>key. if key = ''BEFORE_SHA'' then before_env
                        else if key = ''GITHUB_OUTPUT'' then Some ''out.txt'' else None),
      files = (\<lambda>path. if path = crate_path then current_text
                      else if path = ''out.txt'' then Some ''earlier=1\<newline>'' else None),
      tomllib_loads = loads_known,
      spawn = git_repo (\<lambda>obj. if obj = base_sha @ '':'' @ crate_path then previous_text
                              else None) (Some base_sha),
      calls = []\<rparr>"

section \<open>Properties of \<^verbatim>\<open>compare_versions\<close>\<close>

lemma py_int_raises: "py_int p = Inl e \<Longrightarrow> e = ValueError"
  by (simp add: py_int_def split: if_splits)

lemma int_parts_raises: "int_parts ps = Inl e \<Longrightarrow> e = ValueError"
proof (induction ps)
  case Nil
  then show ?case by simp
next
  case (Cons p ps)
  then show ?case
    by (auto split: if_splits sum.splits dest: py_int_raises)
qed

lemma version_tuple_raises: "version_tuple v = Inl e \<Longrightarrow> e = ValueError"
  unfolding version_tuple_def by (rule int_parts_raises)

lemma compare_versions_absent_prev: "compare_versions None cur = Inr False"
  by (simp add: compare_versions_def)

lemma compare_versions_absent_cur: "compare_versions prev None = Inr False"
  by (cases prev) (simp_all add: compare_versions_def)

lemma compare_versions_returns: "\<exists>b. compare_versions prev cur = Inr b"
proof (cases prev)
  case None
  with compare_versions_absent_prev [of cur] show ?thesis by blast
next
  case (Some p)
  note prev = this
  show ?thesis
  proof (cases cur)
    case None
    with compare_versions_absent_cur [of prev] show ?thesis by blast
  next
    case (Some c)
    show ?thesis
    proof (cases "version_tuple p")
      case (Inl e)
      then have "e = ValueError" by (rule version_tuple_raises)
      with Inl prev Some show ?thesis
        by (simp add: compare_versions_def try_except_def isinstance_def)
    next
      case (Inr pt)
      note pt = this
      show ?thesis
      proof (cases "version_tuple c")
        case (Inl e)
        then have "e = ValueError" by (rule version_tuple_raises)
        with Inl pt prev Some show ?thesis
          by (simp add: compare_versions_def try_except_def isinstance_def)
      next
        case (Inr ct)
        with pt prev Some show ?thesis
          by (simp add: compare_versions_def try_except_def)
      qed
    qed
  qed
qed

text \<open>
  Claim C9. \<^verbatim>\<open>compare_versions\<close> is total: on every pair of inputs, each absent or any
  string, it returns a boolean and raises nothing; when one of the inputs is absent the
  boolean is \<^verbatim>\<open>False\<close>. (Termination is that of the recursive functions above.)
\<close>

theorem compare_versions_total:
  "(\<exists>b. compare_versions prev cur = Inr b)
     \<and> compare_versions None cur = Inr False
     \<and> compare_versions prev None = Inr False"
  using compare_versions_returns [of prev cur] compare_versions_absent_prev [of cur]
    compare_versions_absent_cur [of prev]
  by blast

subsection \<open>The numeric path\<close>

lemma decimal_isdigit: "decimal p \<Longrightarrow> isdigit p"
  by (auto simp: decimal_def isdigit_def isdigit_char_def list_all_iff)

lemma int_parts_decimal:
  "list_all (\<lambda>p. decimal p \<and> length p \<le> int_max_str_digits) ps
     \<Longrightarrow> int_parts ps = Inr (map decimal_value ps)"
  by (induction ps) (simp_all add: decimal_isdigit py_int_def)

text \<open>Python's order on tuples is the lexicographic order \<open>lexord\<close> of the order on the
  integers, in which a proper prefix is below its extensions.\<close>

lemma tuple_gt_lexord: "tuple_gt as bs \<longleftrightarrow> (bs, as) \<in> lexord {(x, y). x < y}"
  by (induction as bs rule: tuple_gt.induct) auto

lemma tuple_gt_prefix: "tuple_gt (as @ b # bs) as"
  by (induction as) simp_all

text \<open>
  Claim C4, as the script has it. When every dot-separated component of both version
  strings is purely numeric (a non-empty string of the digits 0 to 9) and has at most 4300
  digits, the comparator answers \<^verbatim>\<open>True\<close> (Bump) exactly when the sequence of integers of the
  current version is strictly greater than that of the previous version in the
  lexicographic order, in which a proper prefix is smaller than the longer sequence:
  "1.2" is below "1.2.0". Otherwise it answers \<^verbatim>\<open>False\<close> (NoChange).
\<close>

theorem compare_versions_numeric:
  assumes "list_all (\<lambda>p. decimal p \<and> length p \<le> int_max_str_digits) (str_split CHR ''.'' p)"
    and "list_all (\<lambda>p. decimal p \<and> length p \<le> int_max_str_digits) (str_split CHR ''.'' c)"
  shows "compare_versions (Some p) (Some c) =
           Inr ((map decimal_value (str_split CHR ''.'' p),
                 map decimal_value (str_split CHR ''.'' c)) \<in> lexord {(x, y). x < y})"
  using assms
  by (simp add: compare_versions_def version_tuple_def int_parts_decimal try_except_def
      tuple_gt_lexord)

theorem compare_versions_numeric_witness:
  "list_all (\<lambda>p. decimal p \<and> length p \<le> int_max_str_digits) (str_split CHR ''.'' ''1.2'')
   \<and> list_all (\<lambda>p. decimal p \<and> length p \<le> int_max_str_digits) (str_split CHR ''.'' ''1.2.0'')
   \<and> compare_versions (Some ''1.2'') (Some ''1.2.0'') = Inr True
   \<and> compare_versions (Some ''1.2.0'') (Some ''1.2'') = Inr False
   \<and> compare_versions (Some ''1.2.0'') (Some ''1.10.0'') = Inr True"
proof -
  let ?ok = "list_all (\<lambda>p. decimal p \<and> length p \<le> int_max_str_digits)"
  have a: "?ok (str_split CHR ''.'' ''1.2'')"
    by (simp add: decimal_def decimal_char_def int_max_str_digits_def)
  have b: "?ok (str_split CHR ''.'' ''1.2.0'')"
    by (simp add: decimal_def decimal_char_def int_max_str_digits_def)
  have c: "?ok (str_split CHR ''.'' ''1.10.0'')"
    by (simp add: decimal_def decimal_char_def int_max_str_digits_def)
  from a b c compare_versions_numeric [OF a b] compare_versions_numeric [OF b a]
    compare_versions_numeric [OF b c]
  show ?thesis
    by (simp add: decimal_value_def digit_value_def)
qed

lemma str_split_no_separator: "sep \<notin> set s \<Longrightarrow> str_split sep s = [s]"
  by (induction s) auto

lemma decimal_value_zeros:
  "foldl (\<lambda>acc c. 10 * acc + digit_value c) a (replicate n CHR ''0'') = a * 10 ^ n"
  by (induction n arbitrary: a) (simp_all add: digit_value_def)

lemma long_component:
  assumes "int_max_str_digits \<le> n"
  shows "list_all decimal (str_split CHR ''.'' (CHR ''1'' # replicate n CHR ''0''))"
    and "compare_versions (Some (CHR ''1'' # replicate n CHR ''0'')) (Some ''2'') = Inr True"
    and "(map decimal_value (str_split CHR ''.'' (CHR ''1'' # replicate n CHR ''0'')),
          map decimal_value (str_split CHR ''.'' ''2'')) \<notin> lexord {(x, y). x < y}"
proof -
  let ?p = "CHR ''1'' # replicate n CHR ''0''"
  have split: "str_split CHR ''.'' ?p = [?p]"
    by (rule str_split_no_separator) (auto simp: set_replicate_conv_if)
  have dec: "decimal ?p"
    by (auto simp: decimal_def decimal_char_def list_all_iff set_replicate_conv_if)
  from assms have long: "\<not> length ?p \<le> int_max_str_digits" by simp
  from dec show "list_all decimal (str_split CHR ''.'' ?p)"
    unfolding split by simp
  from dec long have "version_tuple ?p = Inl ValueError"
    unfolding version_tuple_def split by (simp add: decimal_isdigit py_int_def)
  then show "compare_versions (Some ?p) (Some ''2'') = Inr True"
    by (simp add: compare_versions_def try_except_def isinstance_def)
  from assms have "0 < n" by (simp add: int_max_str_digits_def)
  then have "(10::int) \<le> 10 ^ n" by (simp add: self_le_power)
  moreover have "digit_value CHR ''1'' = 1" by (simp add: digit_value_def)
  then have "decimal_value ?p = 10 ^ n"
    by (simp add: decimal_value_def decimal_value_zeros)
  moreover have "decimal_value ''2'' = 2"
    by (simp add: decimal_value_def digit_value_def)
  ultimately show "(map decimal_value (str_split CHR ''.'' ?p),
          map decimal_value (str_split CHR ''.'' ''2'')) \<notin> lexord {(x, y). x < y}"
    unfolding split by simp
qed

text \<open>
  Claim C4, as it is written, fails on a component of more than 4300 digits: with the
  previous version a one followed by 4300 zeros and the current version 2, both purely
  numeric, \<^verbatim>\<open>int\<close> raises \<^verbatim>\<open>ValueError\<close> on the previous version, the handler compares the
  strings and the answer is \<^verbatim>\<open>True\<close>, although the current sequence is not the greater one.
\<close>

theorem compare_versions_digit_cap_counterexample:
  "list_all decimal (str_split CHR ''.'' (CHR ''1'' # replicate 4300 CHR ''0''))
   \<and> list_all decimal (str_split CHR ''.'' ''2'')
   \<and> compare_versions (Some (CHR ''1'' # replicate 4300 CHR ''0'')) (Some ''2'') = Inr True
   \<and> (map decimal_value (str_split CHR ''.'' (CHR ''1'' # replicate 4300 CHR ''0'')),
       map decimal_value (str_split CHR ''.'' ''2'')) \<notin> lexord {(x, y). x < y}"
proof -
  have n: "int_max_str_digits \<le> 4300" by (simp add: int_max_str_digits_def)
  have two: "list_all decimal (str_split CHR ''.'' ''2'')"
    by (simp add: decimal_def decimal_char_def)
  from long_component [OF n] two show ?thesis by blast
qed

subsection \<open>Versions without a numeric component\<close>

lemma int_parts_dropped:
  "list_all (\<lambda>p. \<not> isdigit p) ps \<Longrightarrow> int_parts ps = Inr []"
  by (induction ps) simp_all

text \<open>
  Claim C1, as the script has it. When no dot-separated component of either version
  string passes \<^verbatim>\<open>isdigit\<close>, every component is dropped, both tuples are empty, nothing is
  raised and the comparator answers \<^verbatim>\<open>False\<close> (NoChange), whether the two strings are equal
  or not. The handler that compares the strings is not reached on this path.
\<close>

theorem compare_versions_all_dropped:
  assumes "list_all (\<lambda>p. \<not> isdigit p) (str_split CHR ''.'' p)"
    and "list_all (\<lambda>p. \<not> isdigit p) (str_split CHR ''.'' c)"
  shows "compare_versions (Some p) (Some c) = Inr False"
  using assms
  by (simp add: compare_versions_def version_tuple_def int_parts_dropped try_except_def)

theorem compare_versions_all_dropped_witness:
  "list_all (\<lambda>p. \<not> isdigit p) (str_split CHR ''.'' ''abc'')
   \<and> list_all (\<lambda>p. \<not> isdigit p) (str_split CHR ''.'' ''x.y-z'')
   \<and> compare_versions (Some ''abc'') (Some ''abc'') = Inr False
   \<and> compare_versions (Some ''abc'') (Some ''x.y-z'') = Inr False"
proof -
  have a: "list_all (\<lambda>p. \<not> isdigit p) (str_split CHR ''.'' ''abc'')"
    by (simp add: isdigit_def isdigit_char_def decimal_char_def)
  have b: "list_all (\<lambda>p. \<not> isdigit p) (str_split CHR ''.'' ''x.y-z'')"
    by (simp add: isdigit_def isdigit_char_def decimal_char_def)
  from a b compare_versions_all_dropped [OF a a] compare_versions_all_dropped [OF a b]
  show ?thesis by simp
qed

text \<open>
  Claim C1, as it is written, fails: "abc" and "xyz" have no numeric component and differ,
  and the comparator does not answer \<^verbatim>\<open>current != previous\<close>.
\<close>

theorem compare_versions_fallback_counterexample:
  "list_all (\<lambda>p. \<not> isdigit p) (str_split CHR ''.'' ''abc'')
   \<and> list_all (\<lambda>p. \<not> isdigit p) (str_split CHR ''.'' ''xyz'')
   \<and> compare_versions (Some ''abc'') (Some ''xyz'') \<noteq> Inr (''xyz'' \<noteq> ''abc'')"
  by (simp add: compare_versions_def version_tuple_def try_except_def isdigit_def
      isdigit_char_def decimal_char_def)

text \<open>The handler is reached when \<^verbatim>\<open>int\<close> raises on a component that passed \<^verbatim>\<open>isdigit\<close>: a
  superscript digit.\<close>

lemma compare_versions_handler_reached:
  "compare_versions (Some [CHR 0xB2]) (Some [CHR 0xB3]) = Inr True"
  by (simp add: compare_versions_def version_tuple_def try_except_def isdigit_def
      isdigit_char_def decimal_char_def py_int_def decimal_def isinstance_def)

section \<open>Properties of \<^verbatim>\<open>get_version\<close>\<close>

lemmas example_defs = example_world_def loads_known_def known_documents_def manifest_def
  package_doc_def git_repo_def git_missing_def crate_path_def base_sha_def

text \<open>
  Claim C2, as the script has it. \<^verbatim>\<open>get_version\<close> returns \<^verbatim>\<open>None\<close> and raises nothing when
  the manifest file does not exist, when the parsed document has no \<^verbatim>\<open>package\<close> entry, and
  when its \<^verbatim>\<open>package\<close> table has no \<^verbatim>\<open>version\<close> key: the handler names \<^verbatim>\<open>FileNotFoundError\<close>
  and \<^verbatim>\<open>KeyError\<close>. A text the parser rejects is not among these cases: the parser's
  \<^verbatim>\<open>TOMLDecodeError\<close> leaves \<^verbatim>\<open>get_version\<close> as it is.
\<close>

theorem get_version_absent:
  "(files w path = None \<longrightarrow> get_version w path None = Inr None)
   \<and> ((case content of None \<Rightarrow> read_text w path | Some c \<Rightarrow> Inr c) = Inr text
        \<and> tomllib_loads w text = Inr data \<and> data ''package'' = None
      \<longrightarrow> get_version w path content = Inr None)
   \<and> ((case content of None \<Rightarrow> read_text w path | Some c \<Rightarrow> Inr c) = Inr text
        \<and> tomllib_loads w text = Inr data \<and> data ''package'' = Some (Table package)
        \<and> package ''version'' = None
      \<longrightarrow> get_version w path content = Inr None)
   \<and> ((case content of None \<Rightarrow> read_text w path | Some c \<Rightarrow> Inr c) = Inr text
        \<and> tomllib_loads w text = Inl TOMLDecodeError
      \<longrightarrow> get_version w path content = Inl TOMLDecodeError)"
  by (simp add: get_version_def try_except_def read_text_def getitem_def isinstance_def)

theorem get_version_absent_witness:
  "get_version (example_world None None None) crate_path None = Inr None
   \<and> get_version (example_world None None (Some [])) crate_path None = Inr None
   \<and> get_version (example_world None None None) crate_path
        (Some (''[package]\<newline>name = '' @ [CHR 0x22] @ ''chatty'' @ [CHR 0x22] @ ''\<newline>''))
      = Inr None
   \<and> get_version (example_world None None (Some ''[package'')) crate_path None
      = Inl TOMLDecodeError"
proof -
  let ?w1 = "example_world None None None"
  let ?w2 = "example_world None None (Some [])"
  let ?w4 = "example_world None None (Some ''[package'')"
  let ?t3 = "''[package]\<newline>name = '' @ [CHR 0x22] @ ''chatty'' @ [CHR 0x22] @ ''\<newline>''"
  have a: "files ?w1 crate_path = None" by (simp add: example_defs)
  have b: "(case None of None \<Rightarrow> read_text ?w2 crate_path | Some c \<Rightarrow> Inr c) = Inr []
      \<and> tomllib_loads ?w2 [] = Inr Map.empty \<and> Map.empty ''package'' = (None :: item option)"
    by (simp add: example_defs read_text_def)
  have c: "(case Some ?t3 of None \<Rightarrow> read_text ?w1 crate_path | Some c \<Rightarrow> Inr c) = Inr ?t3
      \<and> tomllib_loads ?w1 ?t3 = Inr [''package'' \<mapsto> Table [''name'' \<mapsto> ''chatty'']]
      \<and> [''package'' \<mapsto> Table [''name'' \<mapsto> ''chatty'']] ''package''
          = Some (Table [''name'' \<mapsto> ''chatty''])
      \<and> [''name'' \<mapsto> ''chatty''] ''version'' = None"
    by (simp add: example_defs read_text_def)
  have d: "(case None of None \<Rightarrow> read_text ?w4 crate_path | Some c \<Rightarrow> Inr c) = Inr ''[package''
      \<and> tomllib_loads ?w4 ''[package'' = Inl TOMLDecodeError"
    by (simp add: example_defs read_text_def)
  from a get_version_absent [of ?w1 crate_path]
  have 1: "get_version ?w1 crate_path None = Inr None" by blast
  from b get_version_absent [of ?w2 crate_path None "[]" Map.empty]
  have 2: "get_version ?w2 crate_path None = Inr None" by blast
  from c get_version_absent [of ?w1 crate_path "Some ?t3" ?t3
      "[''package'' \<mapsto> Table [''name'' \<mapsto> ''chatty'']]" "[''name'' \<mapsto> ''chatty'']"]
  have 3: "get_version ?w1 crate_path (Some ?t3) = Inr None" by blast
  from d get_version_absent [of ?w4 crate_path None "''[package''"]
  have 4: "get_version ?w4 crate_path None = Inl TOMLDecodeError" by blast
  from 1 2 3 4 show ?thesis by blast
qed

text \<open>
  Claim C2, as it is written, fails on a malformed manifest: the text \<^verbatim>\<open>[package\<close> is not
  TOML, and \<^verbatim>\<open>get_version\<close> raises instead of returning \<^verbatim>\<open>None\<close>.
\<close>

theorem get_version_malformed_counterexample:
  "tomllib_loads (example_world None None None) ''[package'' = Inl TOMLDecodeError
   \<and> get_version (example_world None None None) crate_path (Some ''[package'')
       = Inl TOMLDecodeError"
  by (simp add: get_version_def try_except_def isinstance_def example_defs)

text \<open>A \<^verbatim>\<open>package\<close> entry that is not a table raises too: indexing it is a \<^verbatim>\<open>TypeError\<close>.\<close>

lemma get_version_package_not_a_table:
  "get_version (example_world None None None) crate_path (Some ''package = 1\<newline>'')
     = Inl TypeError"
  by (simp add: get_version_def try_except_def isinstance_def getitem_def example_defs)

section \<open>Properties of \<^verbatim>\<open>get_previous_content\<close>\<close>

text \<open>
  Claim C6. With the all-zero reference as the base commit, \<^verbatim>\<open>get_previous_content\<close> returns
  \<^verbatim>\<open>None\<close> and starts no command: the world, and the list of started commands in it, is
  unchanged.
\<close>

theorem get_previous_content_null:
  "get_previous_content w null_sha path = (Inr None, w)
   \<and> calls (snd (get_previous_content w null_sha path)) = calls w
   \<and> null_sha = ''0000000000000000000000000000000000000000''"
  by (simp add: get_previous_content_def null_sha_def eval_nat_numeral)

text \<open>
  Claim C5, as the script has it. When git runs and ends with a return code other than 0 (a
  bad commit reference, a path that did not exist at that commit), \<^verbatim>\<open>get_previous_content\<close>
  returns \<^verbatim>\<open>None\<close> and raises nothing. When the git program cannot be started,
  \<^verbatim>\<open>subprocess.run\<close> raises \<^verbatim>\<open>FileNotFoundError\<close>, which the handler for \<^verbatim>\<open>CalledProcessError\<close>
  does not catch.
\<close>

theorem get_previous_content_failed_lookup:
  "(spawn w [''git'', ''show'', before_sha @ '':'' @ path] = Inr r \<and> returncode r \<noteq> 0
      \<longrightarrow> fst (get_previous_content w before_sha path) = Inr None)
   \<and> (before_sha \<noteq> null_sha
        \<and> spawn w [''git'', ''show'', before_sha @ '':'' @ path] = Inl FileNotFoundError
      \<longrightarrow> fst (get_previous_content w before_sha path) = Inl FileNotFoundError)"
  by (simp add: get_previous_content_def subprocess_run_def try_except_def isinstance_def)

theorem get_previous_content_failed_lookup_witness:
  "fst (get_previous_content (example_world None None None) ''no-such-commit'' crate_path)
     = Inr None
   \<and> fst (get_previous_content (example_world None None None) base_sha crate_path) = Inr None
   \<and> fst (get_previous_content ((example_world None None None)\<lparr>spawn := git_missing\<rparr>)
            base_sha crate_path) = Inl FileNotFoundError"
proof -
  let ?w = "example_world None None None"
  let ?m = "?w\<lparr>spawn := git_missing\<rparr>"
  let ?r = "\<lparr>returncode = 128, stdout = []\<rparr>"
  have a: "spawn ?w [''git'', ''show'', ''no-such-commit'' @ '':'' @ crate_path] = Inr ?r
      \<and> returncode ?r \<noteq> 0"
    by (simp add: example_defs)
  have b: "spawn ?w [''git'', ''show'', base_sha @ '':'' @ crate_path] = Inr ?r
      \<and> returncode ?r \<noteq> 0"
    by (simp add: example_defs)
  have c: "base_sha \<noteq> null_sha
      \<and> spawn ?m [''git'', ''show'', base_sha @ '':'' @ crate_path] = Inl FileNotFoundError"
    by (simp add: example_defs null_sha_def eval_nat_numeral)
  from a get_previous_content_failed_lookup [of ?w "''no-such-commit''" crate_path ?r]
  have 1: "fst (get_previous_content ?w ''no-such-commit'' crate_path) = Inr None" by blast
  from b get_previous_content_failed_lookup [of ?w base_sha crate_path ?r]
  have 2: "fst (get_previous_content ?w base_sha crate_path) = Inr None" by blast
  from c get_previous_content_failed_lookup [of ?m base_sha crate_path]
  have 3: "fst (get_previous_content ?m base_sha crate_path) = Inl FileNotFoundError" by blast
  from 1 2 3 show ?thesis by blast
qed

text \<open>
  Claim C5, as it is written, fails when the version-control system is unavailable: on a
  machine without git the lookup raises \<^verbatim>\<open>FileNotFoundError\<close> instead of returning \<^verbatim>\<open>None\<close>.
\<close>

theorem get_previous_content_git_missing_counterexample:
  "spawn ((example_world None None None)\<lparr>spawn := git_missing\<rparr>)
      [''git'', ''show'', base_sha @ '':'' @ crate_path] = Inl FileNotFoundError
   \<and> fst (get_previous_content ((example_world None None None)\<lparr>spawn := git_missing\<rparr>)
            base_sha crate_path) = Inl FileNotFoundError"
  by (simp add: get_previous_content_def subprocess_run_def try_except_def isinstance_def
      example_defs null_sha_def eval_nat_numeral)

section \<open>Properties of \<^verbatim>\<open>main\<close>\<close>

subsection \<open>The base commit\<close>

text \<open>
  Claim C7, as the script has it. A reference supplied in \<^verbatim>\<open>BEFORE_SHA\<close> (a non-empty value)
  is used as it is and no command is started. Without one, \<^verbatim>\<open>git rev-parse HEAD^\<close> is
  started: when it succeeds with an output that is not blank, the base commit is that
  output without the surrounding white space; when git ends with a return code other than
  0 or its output is blank, the base commit is the all-zero reference. When git cannot be
  started, \<^verbatim>\<open>subprocess.run\<close> raises \<^verbatim>\<open>FileNotFoundError\<close>, which the handler for
  \<^verbatim>\<open>CalledProcessError\<close> does not catch: no reference is used and \<^verbatim>\<open>main\<close> ends with that
  exception.
\<close>

theorem resolve_before_sha_cases:
  "(environ w ''BEFORE_SHA'' = Some sha \<and> sha \<noteq> []
      \<longrightarrow> resolve_before_sha w = (Inr sha, w))
   \<and> ((environ w ''BEFORE_SHA'' = None \<or> environ w ''BEFORE_SHA'' = Some [])
        \<and> spawn w [''git'', ''rev-parse'', ''HEAD^''] = Inr r
        \<and> returncode r = 0 \<and> strip (stdout r) \<noteq> []
      \<longrightarrow> resolve_before_sha w
            = (Inr (strip (stdout r)),
               w\<lparr>calls := calls w @ [[''git'', ''rev-parse'', ''HEAD^'']]\<rparr>))
   \<and> ((environ w ''BEFORE_SHA'' = None \<or> environ w ''BEFORE_SHA'' = Some [])
        \<and> spawn w [''git'', ''rev-parse'', ''HEAD^''] = Inr r
        \<and> (returncode r \<noteq> 0 \<or> strip (stdout r) = [])
      \<longrightarrow> fst (resolve_before_sha w) = Inr null_sha)
   \<and> ((environ w ''BEFORE_SHA'' = None \<or> environ w ''BEFORE_SHA'' = Some [])
        \<and> spawn w [''git'', ''rev-parse'', ''HEAD^''] = Inl FileNotFoundError
      \<longrightarrow> fst (resolve_before_sha w) = Inl FileNotFoundError
          \<and> fst (main w) = Inl FileNotFoundError)"
proof -
  let ?unset = "environ w ''BEFORE_SHA'' = None \<or> environ w ''BEFORE_SHA'' = Some []"
  let ?argv = "[''git'', ''rev-parse'', ''HEAD^'']"
  have given: "resolve_before_sha w = (Inr sha, w)"
    if "environ w ''BEFORE_SHA'' = Some sha" and "sha \<noteq> []"
    using that by (simp add: resolve_before_sha_def environ_get_def)
  have unset: "environ_get w ''BEFORE_SHA'' [] = []" if ?unset
    using that by (auto simp: environ_get_def)
  have parent: "resolve_before_sha w
      = (Inr (strip (stdout r)), w\<lparr>calls := calls w @ [?argv]\<rparr>)"
    if ?unset and "spawn w ?argv = Inr r" and "returncode r = 0" and "strip (stdout r) \<noteq> []"
    using that(2-4) unset [OF that(1)]
    by (simp add: resolve_before_sha_def subprocess_run_def try_except_def Let_def)
  have null: "fst (resolve_before_sha w) = Inr null_sha"
    if ?unset and "spawn w ?argv = Inr r" and "returncode r \<noteq> 0 \<or> strip (stdout r) = []"
    using that(2-3) unset [OF that(1)]
    by (auto simp: resolve_before_sha_def subprocess_run_def try_except_def isinstance_def
        Let_def)
  have missing: "fst (resolve_before_sha w) = Inl FileNotFoundError
      \<and> fst (main w) = Inl FileNotFoundError"
    if ?unset and "spawn w ?argv = Inl FileNotFoundError"
    using that(2) unset [OF that(1)]
    by (simp add: main_def resolve_before_sha_def subprocess_run_def try_except_def
        isinstance_def Let_def)
  from given parent null missing show ?thesis by blast
qed

theorem resolve_before_sha_cases_witness:
  "resolve_before_sha (example_world (Some ''abc123'') None None)
     = (Inr ''abc123'', example_world (Some ''abc123'') None None)
   \<and> fst (resolve_before_sha (example_world None None None)) = Inr base_sha
   \<and> fst (resolve_before_sha (example_world (Some []) None None)) = Inr base_sha
   \<and> fst (resolve_before_sha
            ((example_world None None None)\<lparr>spawn := git_repo Map.empty None\<rparr>))
       = Inr null_sha
   \<and> fst (resolve_before_sha ((example_world None None None)\<lparr>spawn := git_missing\<rparr>))
       = Inl FileNotFoundError"
proof -
  let ?w1 = "example_world (Some ''abc123'') None None"
  let ?w2 = "example_world None None None"
  let ?w3 = "example_world (Some []) None None"
  let ?w4 = "?w2\<lparr>spawn := git_repo Map.empty None\<rparr>"
  let ?w5 = "?w2\<lparr>spawn := git_missing\<rparr>"
  let ?ok = "\<lparr>returncode = 0, stdout = base_sha @ ''\<newline>''\<rparr>"
  let ?bad = "\<lparr>returncode = 128, stdout = ''HEAD^\<newline>''\<rparr>"
  have s: "strip (base_sha @ ''\<newline>'') = base_sha"
    by (simp add: strip_def isspace_char_def base_sha_def eval_nat_numeral)
  have a: "environ ?w1 ''BEFORE_SHA'' = Some ''abc123'' \<and> ''abc123'' \<noteq> []"
    by (simp add: example_defs)
  have b: "(environ ?w2 ''BEFORE_SHA'' = None \<or> environ ?w2 ''BEFORE_SHA'' = Some [])
      \<and> spawn ?w2 [''git'', ''rev-parse'', ''HEAD^''] = Inr ?ok
      \<and> returncode ?ok = 0 \<and> strip (stdout ?ok) \<noteq> []"
    by (simp add: s) (simp add: example_defs eval_nat_numeral)
  have c: "(environ ?w3 ''BEFORE_SHA'' = None \<or> environ ?w3 ''BEFORE_SHA'' = Some [])
      \<and> spawn ?w3 [''git'', ''rev-parse'', ''HEAD^''] = Inr ?ok
      \<and> returncode ?ok = 0 \<and> strip (stdout ?ok) \<noteq> []"
    by (simp add: s) (simp add: example_defs eval_nat_numeral)
  have d: "(environ ?w4 ''BEFORE_SHA'' = None \<or> environ ?w4 ''BEFORE_SHA'' = Some [])
      \<and> spawn ?w4 [''git'', ''rev-parse'', ''HEAD^''] = Inr ?bad
      \<and> (returncode ?bad \<noteq> 0 \<or> strip (stdout ?bad) = [])"
    by (simp add: example_defs)
  have e: "(environ ?w5 ''BEFORE_SHA'' = None \<or> environ ?w5 ''BEFORE_SHA'' = Some [])
      \<and> spawn ?w5 [''git'', ''rev-parse'', ''HEAD^''] = Inl FileNotFoundError"
    by (simp add: example_defs)
  from a resolve_before_sha_cases [of ?w1 "''abc123''"]
  have 1: "resolve_before_sha ?w1 = (Inr ''abc123'', ?w1)" by blast
  from b resolve_before_sha_cases [of ?w2 _ ?ok]
  have 2: "fst (resolve_before_sha ?w2) = Inr base_sha" by (simp add: s)
  from c resolve_before_sha_cases [of ?w3 _ ?ok]
  have 3: "fst (resolve_before_sha ?w3) = Inr base_sha" by (simp add: s)
  from d resolve_before_sha_cases [of ?w4 _ ?bad]
  have 4: "fst (resolve_before_sha ?w4) = Inr null_sha" by blast
  from e resolve_before_sha_cases [of ?w5]
  have 5: "fst (resolve_before_sha ?w5) = Inl FileNotFoundError" by blast
  from 1 2 3 4 5 show ?thesis by blast
qed

text \<open>
  Claim C7, as it is written, fails when the resolution of the parent fails because git is
  not installed: with no \<^verbatim>\<open>BEFORE_SHA\<close>, the all-zero reference is not used; the exception
  leaves \<^verbatim>\<open>main\<close>.
\<close>

theorem resolve_before_sha_git_missing_counterexample:
  "environ ((example_world None None (Some (manifest ''1.0.0'')))\<lparr>spawn := git_missing\<rparr>)
       ''BEFORE_SHA'' = None
   \<and> spawn ((example_world None None (Some (manifest ''1.0.0'')))\<lparr>spawn := git_missing\<rparr>)
       [''git'', ''rev-parse'', ''HEAD^''] = Inl FileNotFoundError
   \<and> fst (resolve_before_sha
            ((example_world None None (Some (manifest ''1.0.0'')))\<lparr>spawn := git_missing\<rparr>))
       = Inl FileNotFoundError
   \<and> fst (main ((example_world None None (Some (manifest ''1.0.0'')))\<lparr>spawn := git_missing\<rparr>))
       = Inl FileNotFoundError"
  by (simp add: main_def resolve_before_sha_def environ_get_def subprocess_run_def
      try_except_def isinstance_def Let_def example_defs)

subsection \<open>The decision for one crate\<close>

lemmas run_defs = main_def resolve_before_sha_def process_crate_def
  crate_versions_def record_decision_def get_version_def get_previous_content_def
  subprocess_run_def try_except_def isinstance_def read_text_def getitem_def environ_get_def
  truthy_def null_sha_def initial_def BINARY_CRATES_def write_outputs_def append_to_def
  output_lines_def flag_line_def version_line_def Let_def

lemmas compare_defs = compare_versions_def version_tuple_def try_except_def isinstance_def
  isdigit_def isdigit_char_def decimal_char_def py_int_def decimal_def decimal_value_def
  digit_value_def int_max_str_digits_def

lemma record_decision_chatty:
  "record_decision ''chatty'' previous current d
        = Inr (if truthy current
               then d\<lparr>client_version := current,
                      client_release_needed :=
                        (client_release_needed d \<or> previous = None
                           \<or> (truthy previous \<and> compare_versions previous current = Inr True))\<rparr>
               else d)"
proof -
  obtain b where b: "compare_versions previous current = Inr b"
    using compare_versions_returns by blast
  then show ?thesis
    by (cases b) (auto simp: record_decision_def)
qed











lemmas spec_defs = spec_transition_def spec_bump_def spec_parse_def decimal_def
  decimal_char_def decimal_value_def digit_value_def



text \<open>In the other direction, a component with a superscript digit makes \<^verbatim>\<open>int\<close> raise and
  the handler set the flag, where the specification drops the component and sees no
  change.\<close>

lemma release_flag_superscript:
  "spec_transition (Some (''1.'' @ [CHR 0xB2])) (Some (''1.'' @ [CHR 0xB3])) = NoChange
   \<and> record_decision ''chatty'' (Some (''1.'' @ [CHR 0xB2])) (Some (''1.'' @ [CHR 0xB3])) initial
       = Inr (initial\<lparr>client_version := Some (''1.'' @ [CHR 0xB3]),
                       client_release_needed := True\<rparr>)"
  by (simp add: spec_defs record_decision_def truthy_def compare_defs initial_def)

subsection \<open>Empty content at the base commit\<close>

text \<open>
  Claim C10. When \<^verbatim>\<open>git show\<close> succeeds at the base commit with an empty output, the
  previous content is the empty string, the previous version is \<^verbatim>\<open>None\<close> whatever
  \<^verbatim>\<open>get_version\<close> would make of that content, and a crate with a present current version
  (one that passes the test \<^verbatim>\<open>if current_version\<close>: a non-empty string) is a first release:
  its Transition is \<open>FirstRelease\<close> and the flag of its role is set to true.
\<close>

theorem empty_previous_content_first_release:
  assumes "before_sha \<noteq> null_sha"
    and "spawn w [''git'', ''show'', before_sha @ '':'' @ path] = Inr r"
    and "returncode r = 0" and "stdout r = []"
    and "get_version w path None = Inr (Some v)" and "v \<noteq> []"
  shows "fst (get_previous_content w before_sha path) = Inr (Some [])
     \<and> fst (crate_versions w before_sha path) = Inr (None, Some v)
     \<and> spec_transition None (Some v) = FirstRelease
     \<and> fst (process_crate w before_sha (path, ''chatty'') d)
         = Inr (d\<lparr>client_version := Some v, client_release_needed := True\<rparr>)
     \<and> fst (process_crate w before_sha (path, ''chatty-server'') d)
         = Inr (d\<lparr>server_version := Some v, server_release_needed := True\<rparr>)"
proof -
  from assms(1-4)
  have content: "get_previous_content w before_sha path
      = (Inr (Some []), w\<lparr>calls := calls w @ [[''git'', ''show'', before_sha @ '':'' @ path]]\<rparr>)"
    by (simp add: get_previous_content_def subprocess_run_def try_except_def)
  with assms(5)
  have versions: "crate_versions w before_sha path
      = (Inr (None, Some v),
         w\<lparr>calls := calls w @ [[''git'', ''show'', before_sha @ '':'' @ path]]\<rparr>)"
    by (simp add: crate_versions_def truthy_def)
  have first: "spec_transition None (Some v) = FirstRelease"
    by (simp add: spec_transition_def)
  from assms(6)
  have client: "record_decision ''chatty'' None (Some v) d
      = Inr (d\<lparr>client_version := Some v, client_release_needed := True\<rparr>)"
    and server: "record_decision ''chatty-server'' None (Some v) d
      = Inr (d\<lparr>server_version := Some v, server_release_needed := True\<rparr>)"
    by (simp_all add: record_decision_def truthy_def)
  from content versions first client server show ?thesis
    by (simp add: process_crate_def)
qed

theorem empty_previous_content_first_release_witness:
  "base_sha \<noteq> null_sha
   \<and> spawn (example_world (Some base_sha) (Some []) (Some (manifest ''2.0.0'')))
        [''git'', ''show'', base_sha @ '':'' @ crate_path] = Inr \<lparr>returncode = 0, stdout = []\<rparr>
   \<and> get_version (example_world (Some base_sha) (Some []) (Some (manifest ''2.0.0'')))
        crate_path None = Inr (Some ''2.0.0'')
   \<and> fst (crate_versions (example_world (Some base_sha) (Some []) (Some (manifest ''2.0.0'')))
            base_sha crate_path) = Inr (None, Some ''2.0.0'')
   \<and> fst (process_crate (example_world (Some base_sha) (Some []) (Some (manifest ''2.0.0'')))
            base_sha (crate_path, ''chatty'') initial)
       = Inr \<lparr>server_release_needed = False, client_release_needed = True,
              server_version = None, client_version = Some ''2.0.0''\<rparr>"
proof -
  let ?w = "example_world (Some base_sha) (Some []) (Some (manifest ''2.0.0''))"
  let ?r = "\<lparr>returncode = 0, stdout = []\<rparr>"
  have a: "base_sha \<noteq> null_sha"
    by (simp add: base_sha_def null_sha_def eval_nat_numeral)
  have b: "spawn ?w [''git'', ''show'', base_sha @ '':'' @ crate_path] = Inr ?r"
    by (simp add: example_defs)
  have c: "returncode ?r = 0" "stdout ?r = []" by simp_all
  have g: "get_version ?w crate_path None = Inr (Some ''2.0.0'')"
    by (simp add: get_version_def try_except_def read_text_def getitem_def example_defs)
  have n: "''2.0.0'' \<noteq> []" by simp
  from empty_previous_content_first_release [OF a b c g n, of initial] a b g
  show ?thesis by (simp add: initial_def)
qed

subsection \<open>The result file\<close>

lemma get_version_calls [simp]: "get_version (w\<lparr>calls := cs\<rparr>) path content = get_version w path content"
  by (simp add: get_version_def read_text_def cong: sum.case_cong option.case_cong)

lemma subprocess_run_world: "snd (subprocess_run w argv) = w\<lparr>calls := calls w @ [argv]\<rparr>"
  by (simp add: subprocess_run_def)

lemma get_previous_content_world:
  "\<exists>cs. snd (get_previous_content w before_sha path) = w\<lparr>calls := cs\<rparr>"
proof (cases "before_sha = null_sha")
  case True
  then have "snd (get_previous_content w before_sha path) = w\<lparr>calls := calls w\<rparr>"
    by (simp add: get_previous_content_def)
  then show ?thesis by blast
next
  case False
  then have "snd (get_previous_content w before_sha path)
      = w\<lparr>calls := calls w @ [[''git'', ''show'', before_sha @ '':'' @ path]]\<rparr>"
    by (simp add: get_previous_content_def subprocess_run_def)
  then show ?thesis by blast
qed

lemma resolve_before_sha_world: "\<exists>cs. snd (resolve_before_sha w) = w\<lparr>calls := cs\<rparr>"
proof (cases "environ_get w ''BEFORE_SHA'' [] \<noteq> []")
  case True
  then have "snd (resolve_before_sha w) = w\<lparr>calls := calls w\<rparr>"
    by (simp add: resolve_before_sha_def Let_def)
  then show ?thesis by blast
next
  case False
  then have "snd (resolve_before_sha w)
      = w\<lparr>calls := calls w @ [[''git'', ''rev-parse'', ''HEAD^'']]\<rparr>"
    by (simp add: resolve_before_sha_def Let_def subprocess_run_def)
  then show ?thesis by blast
qed

lemma crate_versions_Inr:
  assumes "crate_versions w before_sha path = (Inr (previous, current), w')"
  shows "get_version w path None = Inr current \<and> (\<exists>cs. w' = w\<lparr>calls := cs\<rparr>)"
proof -
  obtain cs where cs: "snd (get_previous_content w before_sha path) = w\<lparr>calls := cs\<rparr>"
    using get_previous_content_world by blast
  obtain r w1 where g: "get_previous_content w before_sha path = (r, w1)"
    by (cases "get_previous_content w before_sha path")
  with cs have w1: "w1 = w\<lparr>calls := cs\<rparr>" by simp
  from assms g w1 show ?thesis
    by (auto simp: crate_versions_def split: sum.splits if_splits)
qed

lemma main_Inr:
  assumes "main w = (Inr d, w')"
  shows "\<exists>cs previous current.
           get_version w crate_path None = Inr current
           \<and> record_decision ''chatty'' previous current initial = Inr d
           \<and> w' = write_outputs (w\<lparr>calls := cs\<rparr>) d"
proof -
  obtain c1 where c1: "snd (resolve_before_sha w) = w\<lparr>calls := c1\<rparr>"
    using resolve_before_sha_world by blast
  obtain r w1 where r: "resolve_before_sha w = (r, w1)"
    by (cases "resolve_before_sha w")
  with c1 have w1: "w1 = w\<lparr>calls := c1\<rparr>" by simp
  from assms r obtain b where b: "r = Inr b"
    by (cases r) (auto simp: main_def)
  obtain v w2 where v: "crate_versions w1 b crate_path = (v, w2)"
    by (cases "crate_versions w1 b crate_path")
  from assms r b v obtain previous current where pc: "v = Inr (previous, current)"
    by (cases v) (auto simp: main_def BINARY_CRATES_def crate_path_def process_crate_def)
  from crate_versions_Inr v pc w1
  have cur: "get_version w crate_path None = Inr current" and "\<exists>cs. w2 = w1\<lparr>calls := cs\<rparr>"
    by fastforce+
  then obtain c2 where w2: "w2 = w\<lparr>calls := c2\<rparr>" using w1 by auto
  from assms r b v pc
  have "record_decision ''chatty'' previous current initial = Inr d \<and> w' = write_outputs w2 d"
    by (auto simp: main_def BINARY_CRATES_def crate_path_def process_crate_def
        split: sum.splits)
  with cur w2 show ?thesis by blast
qed

lemma version_line_written:
  "version_line ''client'' v \<in> set (output_lines d) \<longleftrightarrow> client_version d = Some v \<and> v \<noteq> []"
  "version_line ''server'' v \<in> set (output_lines d) \<longleftrightarrow> server_version d = Some v \<and> v \<noteq> []"
  by (auto simp: output_lines_def flag_line_def version_line_def split: option.splits)

lemma write_outputs_appends:
  assumes "environ w ''GITHUB_OUTPUT'' = Some out" and "out \<noteq> []"
  shows "files (write_outputs w d) out
           = Some ((case files w out of None \<Rightarrow> [] | Some old \<Rightarrow> old) @ concat (output_lines d))"
    and "path \<noteq> out \<Longrightarrow> files (write_outputs w d) path = files w path"
  using assms by (simp_all add: write_outputs_def environ_get_def append_to_def)

text \<open>
  Claim C8. When \<^verbatim>\<open>GITHUB_OUTPUT\<close> names a file and \<^verbatim>\<open>main\<close> completes, the file holds what
  it held before followed by the written lines (nothing is truncated or overwritten). For
  each role, a line \<^verbatim>\<open><role>_version=v\<close> is among the written lines exactly when that
  role's version is \<open>v\<close> and \<open>v\<close> is not empty; so the key is never written with an empty
  value. For the configured table the client version is the non-empty version
  \<^verbatim>\<open>get_version\<close> found in the working tree, whatever the previous version is (also when
  they are equal), and the server version is never set.
\<close>

theorem main_appends_outputs:
  assumes "environ w ''GITHUB_OUTPUT'' = Some out" and "out \<noteq> []"
    and "main w = (Inr d, w')"
  shows "files w' out
           = Some ((case files w out of None \<Rightarrow> [] | Some old \<Rightarrow> old) @ concat (output_lines d))
     \<and> (\<forall>v. version_line ''client'' v \<in> set (output_lines d)
              \<longleftrightarrow> client_version d = Some v \<and> v \<noteq> [])
     \<and> (\<forall>v. version_line ''server'' v \<in> set (output_lines d)
              \<longleftrightarrow> server_version d = Some v \<and> v \<noteq> [])
     \<and> (\<forall>v. client_version d = Some v
              \<longleftrightarrow> get_version w crate_path None = Inr (Some v) \<and> v \<noteq> [])
     \<and> server_version d = None"
proof -
  from main_Inr [OF assms(3)] obtain cs previous current
    where cur: "get_version w crate_path None = Inr current"
      and rec: "record_decision ''chatty'' previous current initial = Inr d"
      and w': "w' = write_outputs (w\<lparr>calls := cs\<rparr>) d"
    by blast
  from assms(1) have env: "environ (w\<lparr>calls := cs\<rparr>) ''GITHUB_OUTPUT'' = Some out" by simp
  from write_outputs_appends(1) [OF env assms(2)] w'
  have appended: "files w' out
      = Some ((case files w out of None \<Rightarrow> [] | Some old \<Rightarrow> old) @ concat (output_lines d))"
    by simp
  from rec record_decision_chatty [of previous current initial]
  have d: "client_version d = (if truthy current then current else None)"
    "server_version d = None"
    by (auto simp: initial_def)
  from d(1) cur
  have link: "\<forall>v. client_version d = Some v
      \<longleftrightarrow> get_version w crate_path None = Inr (Some v) \<and> v \<noteq> []"
    by (cases current) (auto simp: truthy_def)
  from appended link d(2) version_line_written show ?thesis by blast
qed

theorem main_appends_outputs_witness:
  "environ (example_world (Some base_sha) (Some (manifest ''1.0.0'')) (Some (manifest ''1.0.0'')))
       ''GITHUB_OUTPUT'' = Some ''out.txt''
   \<and> fst (main (example_world (Some base_sha) (Some (manifest ''1.0.0''))
                  (Some (manifest ''1.0.0''))))
       = Inr \<lparr>server_release_needed = False, client_release_needed = False,
              server_version = None, client_version = Some ''1.0.0''\<rparr>
   \<and> files (snd (main (example_world (Some base_sha) (Some (manifest ''1.0.0''))
                         (Some (manifest ''1.0.0''))))) ''out.txt''
       = Some (''earlier=1\<newline>'' @ ''server_release_needed=false\<newline>''
               @ ''client_release_needed=false\<newline>'' @ ''client_version=1.0.0\<newline>'')"
proof -
  let ?w = "example_world (Some base_sha) (Some (manifest ''1.0.0'')) (Some (manifest ''1.0.0''))"
  let ?d = "\<lparr>server_release_needed = False, client_release_needed = False,
             server_version = None, client_version = Some ''1.0.0''\<rparr>"
  have env: "environ ?w ''GITHUB_OUTPUT'' = Some ''out.txt''"
    by (simp add: example_defs)
  have old: "files ?w ''out.txt'' = Some ''earlier=1\<newline>''"
    by (simp add: example_defs)
  have run: "fst (main ?w) = Inr ?d"
    by (simp add: run_defs example_defs eval_nat_numeral compare_versions_def
        version_tuple_def isdigit_def isdigit_char_def decimal_char_def py_int_def decimal_def
        decimal_value_def digit_value_def int_max_str_digits_def)
  then have m: "main ?w = (Inr ?d, snd (main ?w))"
    by (metis prod.collapse)
  have ne: "''out.txt'' \<noteq> []" by simp
  from main_appends_outputs [OF env ne m] old
  have "files (snd (main ?w)) ''out.txt''
      = Some (''earlier=1\<newline>'' @ ''server_release_needed=false\<newline>''
               @ ''client_release_needed=false\<newline>'' @ ''client_version=1.0.0\<newline>'')"
    by (simp add: output_lines_def flag_line_def version_line_def)
  with env run show ?thesis by blast
qed

end
